theory Spec2Isabelle
  imports Complex_Main "HOL-Library.AList"
begin

section \<open>Tables, cells and exceptions\<close>

text \<open>
  The program (\<^verbatim>\<open>src/main.py\<close>) reads four text files into pandas tables and plots
  them. A table (\<^verbatim>\<open>pd.DataFrame\<close>) is modelled by its column labels and its rows, each
  row a list of cells; the row index of pandas is not modelled. A table that has lost all
  of its columns still has its rows (each the empty list), as in pandas.

  A cell is an integer (dtype int64), a decimal number (dtype float64, modelled by the
  exact rational the digits denote: rounding to a double is not modelled), a truth value,
  a string (dtype object) or the missing value.
\<close>

datatype cell = CInt int | CFloat rat | CBool bool | CStr string | NaN

record dataframe =
  columns :: "string list"
  rows :: "cell list list"

text \<open>
  The exceptions the program can meet, all subclasses of Python's \<^verbatim>\<open>Exception\<close>:
  \<^item> \<open>OSError m\<close>: the file could not be opened or decoded; \<open>m\<close> is the message of the
    operating system (for a missing file, \<^verbatim>\<open>[Errno 2] No such file or directory: ...\<close>);
  \<^item> \<open>EmptyDataError\<close>: the file has no line to take the header from;
  \<^item> \<open>ParserError w l n\<close>: line \<open>l\<close> has \<open>n\<close> fields where \<open>w\<close> were expected;
  \<^item> \<open>ValueError n m\<close>: \<open>m\<close> labels were assigned to a table of \<open>n\<close> columns;
  \<^item> \<open>KeyError k\<close>: no column is labelled \<open>k\<close>;
  \<^item> \<open>TypeError\<close>: a plot was asked of a table with no numeric data.
\<close>

datatype exn =
    OSError string
  | EmptyDataError
  | ParserError nat nat nat
  | ValueError nat nat
  | KeyError string
  | TypeError

fun digito_de :: "nat \<Rightarrow> char" where
  "digito_de n = char_of (48 + n)"

fun dec_nat :: "nat \<Rightarrow> string" where
  "dec_nat n = (if n < 10 then [digito_de n] else dec_nat (n div 10) @ [digito_de (n mod 10)])"

declare dec_nat.simps [simp del]

fun str_exn :: "exn \<Rightarrow> string" where
  "str_exn (OSError m) = m"
| "str_exn EmptyDataError = ''No columns to parse from file''"
| "str_exn (ParserError w l n) =
     ''Error tokenizing data. C error: Expected '' @ dec_nat w @ '' fields in line '' @
     dec_nat l @ '', saw '' @ dec_nat n @ [CHR 0x0A]"
| "str_exn (ValueError n m) =
     ''Length mismatch: Expected axis has '' @ dec_nat n @ '' elements, new values have '' @
     dec_nat m @ '' elements''"
| "str_exn (KeyError k) = [CHR 0x27] @ k @ [CHR 0x27]"
| "str_exn TypeError = ''no numeric data to plot''"

text \<open>\<^verbatim>\<open>pd.DataFrame()\<close>: no column and no row.\<close>

definition DataFrame_vazio :: dataframe where
  "DataFrame_vazio = \<lparr>columns = [], rows = []\<rparr>"

subsection \<open>The table operations the importers use\<close>

text \<open>
  \<^verbatim>\<open>df[labels]\<close>: for each label in turn, every column carrying it; \<open>KeyError\<close> for a
  label the table does not have.
\<close>

definition celulas_de :: "string list \<Rightarrow> cell list \<Rightarrow> string \<Rightarrow> cell list" where
  "celulas_de cols r l = map snd (filter (\<lambda>(n, c). n = l) (zip cols r))"

definition getitem :: "string list \<Rightarrow> dataframe \<Rightarrow> exn + dataframe" where
  "getitem labels df =
     (case filter (\<lambda>l. l \<notin> set (columns df)) labels of
        l # _ \<Rightarrow> Inl (KeyError l)
      | [] \<Rightarrow> Inr \<lparr>columns = concat (map (\<lambda>l. filter (\<lambda>n. n = l) (columns df)) labels),
                  rows = map (\<lambda>r. concat (map (celulas_de (columns df) r) labels)) (rows df)\<rparr>)"

text \<open>
  \<^verbatim>\<open>df.drop(columns=labels)\<close>: every column carrying one of the labels goes; \<open>KeyError\<close>
  for a label the table does not have.
\<close>

definition drop_columns :: "string list \<Rightarrow> dataframe \<Rightarrow> exn + dataframe" where
  "drop_columns labels df =
     (case filter (\<lambda>l. l \<notin> set (columns df)) labels of
        l # _ \<Rightarrow> Inl (KeyError l)
      | [] \<Rightarrow> Inr \<lparr>columns = filter (\<lambda>n. n \<notin> set labels) (columns df),
                  rows = map (\<lambda>r. map snd (filter (\<lambda>(n, c). n \<notin> set labels) (zip (columns df) r)))
                           (rows df)\<rparr>)"

text \<open>
  \<^verbatim>\<open>df.columns = names\<close>: the labels are replaced when there are as many names as
  columns, and \<open>ValueError\<close> (length mismatch) is raised otherwise.
\<close>

definition set_columns :: "string list \<Rightarrow> dataframe \<Rightarrow> exn + dataframe" where
  "set_columns names df =
     (if length names = length (columns df) then Inr (df\<lparr>columns := names\<rparr>)
      else Inl (ValueError (length (columns df)) (length names)))"

text \<open>\<^verbatim>\<open>df.dropna()\<close>: the rows with a missing value go.\<close>

definition dropna :: "dataframe \<Rightarrow> dataframe" where
  "dropna df = df\<lparr>rows := filter (\<lambda>r. NaN \<notin> set r) (rows df)\<rparr>"

subsection \<open>Reading a delimited text file\<close>

text \<open>
  \<^verbatim>\<open>pd.read_csv(arquivo, sep=..., decimal=...)\<close> belongs to pandas, not to this
  repository. It is modelled on plain delimited text: the file system maps a path to the
  file's text or to the exception opening it raises; lines end at a line feed (a carriage
  return before it is dropped) and empty lines are skipped; the first line gives the
  column labels (an empty label becomes \<^verbatim>\<open>Unnamed: i\<close>, a repeated one gets a numeric
  suffix); a row with fewer fields is padded with missing values; when the first row has
  more fields than the header, the leading surplus fields are the row index, which the
  model drops; a later row with more fields than that is a \<open>ParserError\<close>. Each column is
  converted as a whole: to integers, else to decimal numbers, else to truth values, else
  it keeps its strings. Quoted fields, comments and infinities are outside the model.
\<close>

type_synonym arquivos = "string \<Rightarrow> exn + string"

fun separar :: "char \<Rightarrow> string \<Rightarrow> string list" where
  "separar sep [] = [[]]"
| "separar sep (c # cs) =
     (if c = sep then [] # separar sep cs
      else (case separar sep cs of f # fs \<Rightarrow> (c # f) # fs | [] \<Rightarrow> [[c]]))"

definition sem_cr :: "string \<Rightarrow> string" where
  "sem_cr l = (if l \<noteq> [] \<and> last l = CHR 0x0D then butlast l else l)"

definition linhas :: "string \<Rightarrow> string list" where
  "linhas texto = filter (\<lambda>l. l \<noteq> []) (map sem_cr (separar (CHR 0x0A) texto))"

definition nomear :: "string list \<Rightarrow> string list" where
  "nomear campos =
     map (\<lambda>(i, c). if c = [] then ''Unnamed: '' @ dec_nat i else c) (enumerate 0 campos)"

text \<open>
  Repeated labels: pandas keeps a count per label; a label seen \<open>n > 0\<close> times before is
  tried again as \<^verbatim>\<open>label.n\<close>, until a label not yet counted is found.
\<close>

definition conta :: "(string \<times> nat) list \<Rightarrow> string \<Rightarrow> nat" where
  "conta cs col = (case map_of cs col of None \<Rightarrow> 0 | Some n \<Rightarrow> n)"

function nome_livre :: "(string \<times> nat) list \<Rightarrow> string \<Rightarrow> string \<times> (string \<times> nat) list" where
  "nome_livre cs col =
     (if 0 < conta cs col
      then nome_livre (AList.update col (conta cs col + 1) cs) (col @ ''.'' @ dec_nat (conta cs col))
      else (col, cs))"
  by pat_completeness auto

lemma conta_pos_key: "0 < conta cs col \<Longrightarrow> col \<in> fst ` set cs"
proof -
  assume "0 < conta cs col"
  then obtain n where "map_of cs col = Some n"
    unfolding conta_def by (cases "map_of cs col") simp_all
  then have "(col, n) \<in> set cs" by (rule map_of_SomeD)
  then show ?thesis by force
qed

lemma keys_update: "col \<in> fst ` set cs \<Longrightarrow> fst ` set (AList.update col v cs) = fst ` set cs"
  by (simp add: dom_update insert_absorb)

termination nome_livre
proof (relation "measure (\<lambda>(cs, col). Suc (Max (length ` fst ` set cs)) - length col)")
  show "wf (measure (\<lambda>(cs, col). Suc (Max (length ` fst ` set cs)) - length col))" by simp
next
  fix cs :: "(string \<times> nat) list" and col :: string
  assume pos: "0 < conta cs col"
  then have mem: "col \<in> fst ` set cs" by (rule conta_pos_key)
  have keys: "fst ` set (AList.update col (conta cs col + 1) cs) = fst ` set cs"
    using mem by (rule keys_update)
  have "length col \<in> length ` fst ` set cs" using mem by (rule imageI)
  then have "length col \<le> Max (length ` fst ` set cs)"
    by (intro Max_ge) simp_all
  then show "((AList.update col (conta cs col + 1) cs, col @ ''.'' @ dec_nat (conta cs col)), (cs, col))
      \<in> measure (\<lambda>(cs, col). Suc (Max (length ` fst ` set cs)) - length col)"
    unfolding in_measure prod.case keys by simp
qed

declare nome_livre.simps [simp del]

fun dedup_aux :: "(string \<times> nat) list \<Rightarrow> string list \<Rightarrow> string list" where
  "dedup_aux cs [] = []"
| "dedup_aux cs (col # resto) =
     (case nome_livre cs col of
        (col', cs') \<Rightarrow> col' # dedup_aux (AList.update col' (conta cs' col' + 1) cs') resto)"

definition dedup_names :: "string list \<Rightarrow> string list" where
  "dedup_names names = dedup_aux [] names"

text \<open>Numbers: optional blanks and sign, digits, and for a decimal number the decimal mark
  given by \<^verbatim>\<open>decimal=\<close>, more digits and an exponent.\<close>

definition e_digito :: "char \<Rightarrow> bool" where
  "e_digito c = (48 \<le> (of_char c :: nat) \<and> (of_char c :: nat) \<le> 57)"

definition valor_digitos :: "string \<Rightarrow> nat" where
  "valor_digitos ds = foldl (\<lambda>a c. 10 * a + (of_char c - 48)) 0 ds"

definition e_espaco :: "char \<Rightarrow> bool" where
  "e_espaco c = (c = CHR '' '' \<or> (9 \<le> (of_char c :: nat) \<and> (of_char c :: nat) \<le> 13))"

definition aparar :: "string \<Rightarrow> string" where
  "aparar s = rev (dropWhile e_espaco (rev (dropWhile e_espaco s)))"

fun sinal :: "string \<Rightarrow> bool \<times> string" where
  "sinal [] = (False, [])"
| "sinal (c # cs) =
     (if c = CHR ''-'' then (True, cs) else if c = CHR ''+'' then (False, cs) else (False, c # cs))"

definition inteiro_de :: "bool \<times> string \<Rightarrow> int option" where
  "inteiro_de p =
     (case p of (neg, ds) \<Rightarrow>
        if ds \<noteq> [] \<and> list_all e_digito ds
        then Some (if neg then - int (valor_digitos ds) else int (valor_digitos ds))
        else None)"

definition conv_int :: "string \<Rightarrow> int option" where
  "conv_int s =
     (case inteiro_de (sinal (aparar s)) of
        None \<Rightarrow> None
      | Some v \<Rightarrow> if - (2 ^ 63) \<le> v \<and> v < 2 ^ 63 then Some v else None)"

fun expoente :: "string \<Rightarrow> int option" where
  "expoente [] = Some 0"
| "expoente (c # cs) = (if c = CHR ''e'' \<or> c = CHR ''E'' then inteiro_de (sinal cs) else None)"

definition escala :: "rat \<Rightarrow> int \<Rightarrow> rat" where
  "escala m e = (if 0 \<le> e then m * 10 ^ nat e else m / 10 ^ nat (- e))"

definition conv_float :: "char \<Rightarrow> string \<Rightarrow> rat option" where
  "conv_float dec s =
     (case sinal (aparar s) of (neg, t) \<Rightarrow>
        (let ip = takeWhile e_digito t;
             r1 = dropWhile e_digito t;
             marca = (r1 \<noteq> [] \<and> hd r1 = dec);
             fp = (if marca then takeWhile e_digito (tl r1) else []);
             r2 = (if marca then dropWhile e_digito (tl r1) else r1)
         in if ip = [] \<and> fp = [] then None
            else (case expoente r2 of
                    None \<Rightarrow> None
                  | Some e \<Rightarrow>
                      Some (escala ((if neg then - 1 else 1) * of_nat (valor_digitos (ip @ fp)))
                              (e - int (length fp))))))"

definition conv_bool :: "string \<Rightarrow> bool option" where
  "conv_bool s =
     (if s \<in> set [''True'', ''TRUE'', ''true''] then Some True
      else if s \<in> set [''False'', ''FALSE'', ''false''] then Some False
      else None)"

text \<open>The field texts pandas reads as a missing value.\<close>

definition na_values :: "string list" where
  "na_values = [[], ''#N/A'', ''#N/A N/A'', ''#NA'', ''-1.#IND'', ''-1.#QNAN'', ''-NaN'',
     ''-nan'', ''1.#IND'', ''1.#QNAN'', ''<NA>'', ''N/A'', ''NA'', ''NULL'', ''NaN'', ''None'',
     ''n/a'', ''nan'', ''null'']"

definition e_na :: "string \<Rightarrow> bool" where
  "e_na f = (f \<in> set na_values)"

datatype tipo = TInt | TFloat | TBool | TObj

definition tipo_coluna :: "char \<Rightarrow> string list \<Rightarrow> tipo" where
  "tipo_coluna dec fs =
     (if fs = [] then TObj
      else if list_all (\<lambda>f. \<not> e_na f \<and> conv_int f \<noteq> None) fs then TInt
      else if list_all (\<lambda>f. e_na f \<or> conv_float dec f \<noteq> None) fs then TFloat
      else if list_all (\<lambda>f. e_na f \<or> conv_bool f \<noteq> None) fs then TBool
      else TObj)"

definition converte :: "char \<Rightarrow> tipo \<Rightarrow> string \<Rightarrow> cell" where
  "converte dec t f =
     (if e_na f then NaN
      else (case t of
              TInt \<Rightarrow> (case conv_int f of Some v \<Rightarrow> CInt v | None \<Rightarrow> NaN)
            | TFloat \<Rightarrow> (case conv_float dec f of Some q \<Rightarrow> CFloat q | None \<Rightarrow> NaN)
            | TBool \<Rightarrow> (case conv_bool f of Some b \<Rightarrow> CBool b | None \<Rightarrow> NaN)
            | TObj \<Rightarrow> CStr f))"

fun excesso :: "nat \<Rightarrow> nat \<Rightarrow> string list list \<Rightarrow> (nat \<times> nat) option" where
  "excesso w l [] = None"
| "excesso w l (r # rs) = (if w < length r then Some (l, length r) else excesso w (Suc l) rs)"

definition largura_de :: "nat \<Rightarrow> string list list \<Rightarrow> nat" where
  "largura_de n campos = (case campos of [] \<Rightarrow> n | r # _ \<Rightarrow> max n (length r))"

definition ajustar :: "nat \<Rightarrow> nat \<Rightarrow> string list \<Rightarrow> string list" where
  "ajustar largura n r = drop (largura - n) (r @ replicate (largura - length r) [])"

definition tipos_de :: "char \<Rightarrow> nat \<Rightarrow> string list list \<Rightarrow> tipo list" where
  "tipos_de dec n tab = map (\<lambda>j. tipo_coluna dec (map (\<lambda>r. r ! j) tab)) [0..<n]"

definition converter_linha :: "char \<Rightarrow> tipo list \<Rightarrow> string list \<Rightarrow> cell list" where
  "converter_linha dec tipos r = map (\<lambda>(t, f). converte dec t f) (zip tipos r)"

definition converter_tabela :: "char \<Rightarrow> nat \<Rightarrow> string list list \<Rightarrow> cell list list" where
  "converter_tabela dec n tab = map (converter_linha dec (tipos_de dec n tab)) tab"

definition montar :: "char \<Rightarrow> char \<Rightarrow> string \<Rightarrow> string list \<Rightarrow> exn + dataframe" where
  "montar sep dec cab dados =
     (let nomes = dedup_names (nomear (separar sep cab));
          campos = map (separar sep) dados;
          n = length nomes;
          largura = largura_de n campos
      in case excesso largura 2 campos of
           Some (l, m) \<Rightarrow> Inl (ParserError largura l m)
         | None \<Rightarrow>
             Inr \<lparr>columns = nomes,
                  rows = converter_tabela dec n (map (ajustar largura n) campos)\<rparr>)"

definition analisar :: "char \<Rightarrow> char \<Rightarrow> string \<Rightarrow> exn + dataframe" where
  "analisar sep dec texto =
     (case linhas texto of
        [] \<Rightarrow> Inl EmptyDataError
      | cab # dados \<Rightarrow> montar sep dec cab dados)"

definition read_csv :: "arquivos \<Rightarrow> string \<Rightarrow> char \<Rightarrow> char \<Rightarrow> exn + dataframe" where
  "read_csv fs arquivo sep dec =
     (case fs arquivo of Inl e \<Rightarrow> Inl e | Inr texto \<Rightarrow> analisar sep dec texto)"

section \<open>The importers\<close>

text \<open>
  \<^verbatim>\<open>importar_csv_osciloscopio\<close>, lines 16 to 24 of \<^verbatim>\<open>src/main.py\<close>: the body of the
  \<^verbatim>\<open>try\<close>, statement by statement. \<open>infos\<close> is a table of its own (selecting columns
  copies), so dropping its rows leaves \<open>df\<close> as it is. The warning pandas may give for
  that in-place change goes to standard error: it is neither output nor an exception.
\<close>

definition corpo_osciloscopio :: "arquivos \<Rightarrow> string \<Rightarrow> exn + dataframe" where
  "corpo_osciloscopio fs arquivo =
     (case read_csv fs arquivo (CHR '';'') (CHR '','') of Inl e \<Rightarrow> Inl e | Inr df \<Rightarrow>
     (case getitem (take 2 (columns df)) df of Inl e \<Rightarrow> Inl e | Inr infos \<Rightarrow>
     (case drop_columns (take 3 (columns df)) df of Inl e \<Rightarrow> Inl e | Inr df1 \<Rightarrow>
     (case set_columns [''tempo'', ''tensao''] df1 of Inl e \<Rightarrow> Inl e | Inr df2 \<Rightarrow>
     (case set_columns [''parametro'', ''valor''] (dropna infos) of Inl e \<Rightarrow> Inl e | Inr infos2 \<Rightarrow>
      Inr df2)))))"

text \<open>
  The handler, lines 25 to 27: any exception of the body is printed (one call of
  \<^verbatim>\<open>print\<close>) and the empty table is returned. The result is what was written to
  standard output, one string per call of \<^verbatim>\<open>print\<close>, and the table returned.
\<close>

definition tratar :: "exn + dataframe \<Rightarrow> string list \<times> dataframe" where
  "tratar r =
     (case r of
        Inr df \<Rightarrow> ([], df)
      | Inl e \<Rightarrow> ([''Erro ao importar o arquivo: '' @ str_exn e], DataFrame_vazio))"

definition importar_csv_osciloscopio :: "arquivos \<Rightarrow> string \<Rightarrow> string list \<times> dataframe" where
  "importar_csv_osciloscopio fs arquivo = tratar (corpo_osciloscopio fs arquivo)"

text \<open>\<^verbatim>\<open>importar_csv_simulador\<close>, lines 40 to 48.\<close>

definition corpo_simulador :: "arquivos \<Rightarrow> string \<Rightarrow> exn + dataframe" where
  "corpo_simulador fs arquivo =
     (case read_csv fs arquivo (CHR 0x09) (CHR '','') of Inl e \<Rightarrow> Inl e | Inr df \<Rightarrow>
      set_columns [''tempo'', ''tensao''] df)"

definition importar_csv_simulador :: "arquivos \<Rightarrow> string \<Rightarrow> string list \<times> dataframe" where
  "importar_csv_simulador fs arquivo = tratar (corpo_simulador fs arquivo)"

text \<open>
  The importer without \<open>infos\<close>: lines 18, 21 and 22 removed, the rest as it is.
\<close>

definition corpo_osciloscopio_sem_infos :: "arquivos \<Rightarrow> string \<Rightarrow> exn + dataframe" where
  "corpo_osciloscopio_sem_infos fs arquivo =
     (case read_csv fs arquivo (CHR '';'') (CHR '','') of Inl e \<Rightarrow> Inl e | Inr df \<Rightarrow>
     (case drop_columns (take 3 (columns df)) df of Inl e \<Rightarrow> Inl e | Inr df1 \<Rightarrow>
      set_columns [''tempo'', ''tensao''] df1))"

definition importar_csv_osciloscopio_sem_infos :: "arquivos \<Rightarrow> string \<Rightarrow> string list \<times> dataframe" where
  "importar_csv_osciloscopio_sem_infos fs arquivo = tratar (corpo_osciloscopio_sem_infos fs arquivo)"

section \<open>The driver\<close>

text \<open>
  \<^verbatim>\<open>df.plot(x="tempo", y="tensao", ...)\<close>: pandas looks the \<open>x\<close> column up, then the
  \<open>y\<close> column (\<open>KeyError\<close> for a missing label), and refuses a \<open>y\<close> column that is not
  numeric (\<open>TypeError\<close>). What is drawn is the pair of columns.
\<close>

definition coluna :: "string \<Rightarrow> dataframe \<Rightarrow> cell list" where
  "coluna l df =
     map (\<lambda>r. case celulas_de (columns df) r l of c # _ \<Rightarrow> c | [] \<Rightarrow> NaN) (rows df)"

definition numerica :: "cell list \<Rightarrow> bool" where
  "numerica ys =
     (ys \<noteq> [] \<and>
      list_all (\<lambda>c. case c of CInt _ \<Rightarrow> True | CFloat _ \<Rightarrow> True | NaN \<Rightarrow> True | _ \<Rightarrow> False) ys)"

definition df_plot :: "string \<Rightarrow> string \<Rightarrow> dataframe \<Rightarrow> exn + cell list \<times> cell list" where
  "df_plot x y df =
     (if x \<notin> set (columns df) then Inl (KeyError x)
      else if y \<notin> set (columns df) then Inl (KeyError y)
      else if \<not> numerica (coluna y df) then Inl TypeError
      else Inr (coluna x df, coluna y df))"

text \<open>
  The analytical curves, lines 65 to 66 and 83 to 84, over the real numbers (numpy
  computes them in double precision; the rounding is not modelled).
  \<^verbatim>\<open>np.arange(0, 2, 0.01)\<close> is the grid of the 200 points \<open>0, 0.01, ..., 1.99\<close>.
\<close>

definition tempo :: "real list" where
  "tempo = map (\<lambda>i. real i * 0.01) [0..<200]"

definition tensao_v1 :: "real \<Rightarrow> real" where
  "tensao_v1 t = 1 - 0.993 * exp (- t * 4.51) - 0.0063 * exp (- t * 10.08)"

definition tensao_v2 :: "real \<Rightarrow> real" where
  "tensao_v2 t = 0.8159 * (exp (- t * 4.51) - exp (- t * 10.08))"

text \<open>
  The state of the run: what was printed, and the lines drawn so far, each on the upper
  (0) or lower (1) axes with its legend label. A step either goes through or raises.
  Axis limits, titles, legends and the final \<^verbatim>\<open>plt.show()\<close> draw no data and are
  left out.
\<close>

datatype tracado =
    Serie nat string "cell list" "cell list"
  | Curva nat string "real list" "real list"

record estado =
  stdout :: "string list"
  figura :: "tracado list"

type_synonym passo = "estado \<Rightarrow> estado \<times> exn option"

definition plotar_importado :: "string list \<times> dataframe \<Rightarrow> nat \<Rightarrow> string \<Rightarrow> passo" where
  "plotar_importado imp ax rotulo s =
     (case imp of (saida, df) \<Rightarrow>
        (let s1 = s\<lparr>stdout := stdout s @ saida\<rparr>
         in case df_plot ''tempo'' ''tensao'' df of
              Inl e \<Rightarrow> (s1, Some e)
            | Inr (xs, ys) \<Rightarrow> (s1\<lparr>figura := figura s1 @ [Serie ax rotulo xs ys]\<rparr>, None)))"

definition plotar_analitico :: "(real \<Rightarrow> real) \<Rightarrow> nat \<Rightarrow> passo" where
  "plotar_analitico f ax s =
     (s\<lparr>figura := figura s @ [Curva ax (''Anal'' @ [CHR 0xC3, CHR 0xAD] @ ''tico'') tempo (map f tempo)]\<rparr>,
      None)"

fun executar :: "passo list \<Rightarrow> passo" where
  "executar [] s = (s, None)"
| "executar (p # ps) s = (case p s of (s1, Some e) \<Rightarrow> (s1, Some e) | (s1, None) \<Rightarrow> executar ps s1)"

text \<open>The file names of lines 54, 58, 72 and 76, in UTF-8.\<close>

definition arquivo_V1 :: string where
  "arquivo_V1 = ''dados/V1.txt''"

definition arquivo_CH2 :: string where
  "arquivo_CH2 = ''dados/Oscilosc'' @ [CHR 0xC3, CHR 0xB3] @ ''pio - F0000CH2.csv''"

definition arquivo_V2 :: string where
  "arquivo_V2 = ''dados/V2.txt''"

definition arquivo_CH1 :: string where
  "arquivo_CH1 = ''dados/Oscilosc'' @ [CHR 0xC3, CHR 0xB3] @ ''pio - F0000CH1.csv''"

definition rotulo_osciloscopio :: string where
  "rotulo_osciloscopio = ''Oscilosc'' @ [CHR 0xC3, CHR 0xB3] @ ''pio''"

text \<open>
  \<^verbatim>\<open>main\<close>, lines 51 to 90: a straight line of calls with no handler, so the first
  exception ends it. An importer is called, and prints, only when its step is reached.
\<close>

definition main :: "arquivos \<Rightarrow> estado \<times> exn option" where
  "main fs =
     executar
       [plotar_importado (importar_csv_simulador fs arquivo_V1) 0 ''Simulador'',
        plotar_importado (importar_csv_osciloscopio fs arquivo_CH2) 0 rotulo_osciloscopio,
        plotar_analitico tensao_v1 0,
        plotar_importado (importar_csv_simulador fs arquivo_V2) 1 ''Simulador'',
        plotar_importado (importar_csv_osciloscopio fs arquivo_CH1) 1 rotulo_osciloscopio,
        plotar_analitico tensao_v2 1]
       \<lparr>stdout = [], figura = []\<rparr>"

text \<open>
  The process (lines 93 and 94): an exception out of \<^verbatim>\<open>main\<close> ends the interpreter
  with exit status 1, a normal return with 0.
\<close>

definition processo :: "arquivos \<Rightarrow> nat" where
  "processo fs = (case snd (main fs) of None \<Rightarrow> 0 | Some e \<Rightarrow> 1)"

section \<open>Example files\<close>

text \<open>
  A file system holding one file, and the one holding none; opening any other path fails
  as a missing file does.
\<close>

definition nao_existe :: "string \<Rightarrow> exn" where
  "nao_existe p = OSError (''[Errno 2] No such file or directory: '' @ [CHR 0x27] @ p @ [CHR 0x27])"

definition sem_arquivos :: arquivos where
  "sem_arquivos p = Inl (nao_existe p)"

definition um_arquivo :: "string \<Rightarrow> string \<Rightarrow> arquivos" where
  "um_arquivo nome texto p = (if p = nome then Inr texto else Inl (nao_existe p))"

text \<open>The oscilloscope file of the spec's end-to-end scenario, with four columns.\<close>

definition texto_4_colunas :: string where
  "texto_4_colunas = ''a;b;t;v'' @ [CHR 0x0A] @ ''1,0;x,0;0,0;0,5'' @ [CHR 0x0A]"

text \<open>The same data after one more leading column, and a file of three columns.\<close>

definition texto_5_colunas :: string where
  "texto_5_colunas = ''a;b;c;t;v'' @ [CHR 0x0A] @ ''1,0;x,0;7;0,0;0,5'' @ [CHR 0x0A]"

definition texto_3_colunas :: string where
  "texto_3_colunas = ''a;b;c'' @ [CHR 0x0A] @ ''1;2;3'' @ [CHR 0x0A]"

text \<open>A simulator file: two columns separated by a tab, two rows.\<close>

definition texto_simulador :: string where
  "texto_simulador = ''t'' @ [CHR 0x09] @ ''v'' @ [CHR 0x0A] @ ''0,0'' @ [CHR 0x09] @ ''0,5'' @ [CHR 0x0A] @
     ''0,01'' @ [CHR 0x09] @ ''1,23'' @ [CHR 0x0A]"


section \<open>Properties of the reader and of the table operations\<close>

text \<open>
  A table read from a file has pairwise distinct column labels, at least one column, and
  rows as wide as the header.
\<close>

lemma nome_livre_conta: "nome_livre cs col = (c, cs') \<Longrightarrow> conta cs' c = 0 \<and> (\<forall>k. 0 < conta cs k \<longrightarrow> 0 < conta cs' k)"
proof (induction cs col arbitrary: c cs' rule: nome_livre.induct)
  case (1 cs col)
  show ?case
  proof (cases "0 < conta cs col")
    case True
    with "1.prems" have eq: "nome_livre (AList.update col (conta cs col + 1) cs) (col @ ''.'' @ dec_nat (conta cs col)) = (c, cs')"
      by (simp add: nome_livre.simps [of cs col])
    from "1.IH" [OF True eq] have a: "conta cs' c = 0"
      and b: "\<And>k. 0 < conta (AList.update col (conta cs col + 1) cs) k \<Longrightarrow> 0 < conta cs' k" by auto
    have "0 < conta cs' k" if "0 < conta cs k" for k
      using that b [of k] by (auto simp: conta_def update_conv' split: option.splits if_splits)
    with a show ?thesis by simp
  next
    case False
    with "1.prems" show ?thesis by (simp add: nome_livre.simps [of cs col])
  qed
qed

lemma conta_update: "conta (AList.update k v cs) k' = (if k' = k then v else conta cs k')"
  by (simp add: conta_def update_conv')

lemma dedup_aux_props:
  "distinct (dedup_aux cs names) \<and> (\<forall>k \<in> set (dedup_aux cs names). conta cs k = 0) \<and> length (dedup_aux cs names) = length names"
proof (induction names arbitrary: cs)
  case Nil
  show ?case by simp
next
  case (Cons col resto)
  obtain c cs' where nl: "nome_livre cs col = (c, cs')" by (cases "nome_livre cs col")
  from nome_livre_conta [OF nl] have c0: "conta cs' c = 0"
    and mono: "\<And>k. 0 < conta cs k \<Longrightarrow> 0 < conta cs' k" by auto
  let ?cs2 = "AList.update c (conta cs' c + 1) cs'"
  from Cons.IH [of ?cs2] have d: "distinct (dedup_aux ?cs2 resto)"
    and z: "\<And>k. k \<in> set (dedup_aux ?cs2 resto) \<Longrightarrow> conta ?cs2 k = 0"
    and l: "length (dedup_aux ?cs2 resto) = length resto" by auto
  have cnot: "c \<notin> set (dedup_aux ?cs2 resto)"
    using z [of c] by (auto simp: conta_update)
  have zero: "conta cs k = 0" if "k \<in> set (dedup_aux ?cs2 resto)" for k
  proof -
    from z [OF that] have "conta cs' k = 0" by (auto simp: conta_update split: if_splits)
    with mono [of k] show ?thesis by auto
  qed
  have zc: "conta cs c = 0" using mono [of c] c0 by auto
  show ?case using d cnot zero zc l by (simp add: nl)
qed

lemma dedup_names_distinct: "distinct (dedup_names names)"
  unfolding dedup_names_def using dedup_aux_props by blast

lemma dedup_names_length: "length (dedup_names names) = length names"
  unfolding dedup_names_def using dedup_aux_props by blast


lemma separar_nao_vazio: "separar sep s \<noteq> []"
  by (induction s) (auto split: list.splits)

lemma nomear_length: "length (nomear campos) = length campos"
  by (simp add: nomear_def)

lemma excesso_None: "excesso w l rs = None \<Longrightarrow> r \<in> set rs \<Longrightarrow> length r \<le> w"
  by (induction rs arbitrary: l) (auto split: if_splits)

lemma largura_de_ge: "n \<le> largura_de n campos"
  by (simp add: largura_de_def split: list.splits)

lemma ajustar_length: "length r \<le> w \<Longrightarrow> n \<le> w \<Longrightarrow> length (ajustar w n r) = n"
  by (simp add: ajustar_def)

lemma tipos_de_length: "length (tipos_de dec n tab) = n"
  by (simp add: tipos_de_def)

lemma converter_linha_length: "length (converter_linha dec tipos r) = min (length tipos) (length r)"
  by (simp add: converter_linha_def)

lemma converter_tabela_rows:
  "(\<And>t. t \<in> set tab \<Longrightarrow> length t = n) \<Longrightarrow> r \<in> set (converter_tabela dec n tab) \<Longrightarrow> length r = n"
  by (auto simp: converter_tabela_def converter_linha_length tipos_de_length)

lemma converter_tabela_length: "length (converter_tabela dec n tab) = length tab"
  by (simp add: converter_tabela_def)

lemma montar_Inr:
  assumes "montar sep dec cab dados = Inr df"
  shows "columns df = dedup_names (nomear (separar sep cab))"
    and "length (rows df) = length dados"
    and "\<And>r. r \<in> set (rows df) \<Longrightarrow> length r = length (columns df)"
proof -
  let ?nomes = "dedup_names (nomear (separar sep cab))"
  let ?campos = "map (separar sep) dados"
  let ?w = "largura_de (length ?nomes) ?campos"
  from assms have exc: "excesso ?w 2 ?campos = None"
    and df: "df = \<lparr>columns = ?nomes,
        rows = converter_tabela dec (length ?nomes) (map (ajustar ?w (length ?nomes)) ?campos)\<rparr>"
    unfolding montar_def Let_def by (simp_all split: option.splits prod.splits)
  show "columns df = ?nomes" by (simp add: df)
  show "length (rows df) = length dados" by (simp add: df converter_tabela_length)
  have tabw: "length t = length ?nomes" if "t \<in> set (map (ajustar ?w (length ?nomes)) ?campos)" for t
  proof -
    from that obtain r where r: "r \<in> set ?campos" and t: "t = ajustar ?w (length ?nomes) r"
      by auto
    from excesso_None [OF exc r] have "length r \<le> ?w" .
    then show ?thesis unfolding t by (rule ajustar_length) (rule largura_de_ge)
  qed
  show "length r = length (columns df)" if "r \<in> set (rows df)" for r
  proof -
    from that have "r \<in> set (converter_tabela dec (length ?nomes) (map (ajustar ?w (length ?nomes)) ?campos))"
      by (simp add: df)
    with tabw have "length r = length ?nomes" by (rule converter_tabela_rows)
    then show ?thesis by (simp add: df)
  qed
qed

lemma analisar_Inr:
  assumes "analisar sep dec texto = Inr df"
  shows "distinct (columns df)" and "columns df \<noteq> []"
    and "\<And>r. r \<in> set (rows df) \<Longrightarrow> length r = length (columns df)"
proof -
  from assms obtain cab dados where m: "montar sep dec cab dados = Inr df"
    by (cases "linhas texto") (simp_all add: analisar_def)
  note cols = montar_Inr(1) [OF m]
  show "distinct (columns df)" by (simp add: cols dedup_names_distinct)
  have "length (columns df) = length (separar sep cab)"
    by (simp add: cols dedup_names_length nomear_length)
  then show "columns df \<noteq> []" using separar_nao_vazio [of sep cab] by auto
  show "length r = length (columns df)" if "r \<in> set (rows df)" for r
    using that by (rule montar_Inr(3) [OF m])
qed

lemma read_csv_Inr:
  assumes "read_csv fs arquivo sep dec = Inr df"
  shows "distinct (columns df)" and "columns df \<noteq> []"
    and "\<And>r. r \<in> set (rows df) \<Longrightarrow> length r = length (columns df)"
proof -
  from assms obtain texto where "analisar sep dec texto = Inr df"
    by (auto simp: read_csv_def split: sum.splits)
  then show "distinct (columns df)" and "columns df \<noteq> []"
    and "\<And>r. r \<in> set (rows df) \<Longrightarrow> length r = length (columns df)"
    by (rule analisar_Inr)+
qed

lemma filter_eq_distinct: "distinct xs \<Longrightarrow> l \<in> set xs \<Longrightarrow> filter (\<lambda>n. n = l) xs = [l]"
  by (induction xs) (auto simp: filter_empty_conv)

lemma concat_filter_eq:
  "distinct xs \<Longrightarrow> set ys \<subseteq> set xs \<Longrightarrow> concat (map (\<lambda>l. filter (\<lambda>n. n = l) xs) ys) = ys"
  by (induction ys) (simp_all add: filter_eq_distinct)

lemma getitem_distinct_columns:
  assumes "distinct (columns df)" and "set labels \<subseteq> set (columns df)"
  shows "\<exists>infos. getitem labels df = Inr infos \<and> columns infos = labels"
proof -
  have none: "filter (\<lambda>l. l \<notin> set (columns df)) labels = []"
    using assms(2) by (auto simp: filter_empty_conv)
  show ?thesis by (simp add: getitem_def none concat_filter_eq [OF assms])
qed

lemma filter_not_take: "distinct xs \<Longrightarrow> filter (\<lambda>n. n \<notin> set (take k xs)) xs = drop k xs"
proof -
  assume d: "distinct xs"
  then have "distinct (take k xs @ drop k xs)" by simp
  then have disj: "set (take k xs) \<inter> set (drop k xs) = {}" by (simp only: distinct_append)
  have a: "filter (\<lambda>n. n \<notin> set (take k xs)) (take k xs) = []"
    by (simp add: filter_empty_conv)
  have b: "filter (\<lambda>n. n \<notin> set (take k xs)) (drop k xs) = drop k xs"
    using disj by (auto simp: filter_id_conv)
  have "filter (\<lambda>n. n \<notin> set (take k xs)) xs =
      filter (\<lambda>n. n \<notin> set (take k xs)) (take k xs) @ filter (\<lambda>n. n \<notin> set (take k xs)) (drop k xs)"
    by (metis filter_append append_take_drop_id)
  then show ?thesis by (simp only: a b append_Nil)
qed

lemma zip_filter_not_take:
  assumes "distinct xs" and "length r = length xs"
  shows "map snd (filter (\<lambda>(n, c). n \<notin> set (take k xs)) (zip xs r)) = drop k r"
proof -
  from assms(1) have "distinct (take k xs @ drop k xs)" by simp
  then have disj: "set (take k xs) \<inter> set (drop k xs) = {}" by (simp only: distinct_append)
  have z: "zip xs r = zip (take k xs) (take k r) @ zip (drop k xs) (drop k r)"
    by (metis append_take_drop_id take_zip drop_zip)
  have a: "filter (\<lambda>(n, c). n \<notin> set (take k xs)) (zip (take k xs) (take k r)) = []"
    by (auto simp: filter_empty_conv dest: set_zip_leftD)
  have b: "filter (\<lambda>(n, c). n \<notin> set (take k xs)) (zip (drop k xs) (drop k r)) = zip (drop k xs) (drop k r)"
    using disj by (auto simp: filter_id_conv dest: set_zip_leftD)
  show ?thesis unfolding z filter_append a b using assms(2) by simp
qed

lemma drop_columns_take:
  assumes "distinct (columns df)" and "\<And>r. r \<in> set (rows df) \<Longrightarrow> length r = length (columns df)"
  shows "drop_columns (take k (columns df)) df =
    Inr \<lparr>columns = drop k (columns df), rows = map (drop k) (rows df)\<rparr>"
proof -
  have none: "filter (\<lambda>l. l \<notin> set (columns df)) (take k (columns df)) = []"
    by (auto simp: filter_empty_conv dest: in_set_takeD)
  have "map (\<lambda>r. map snd (filter (\<lambda>(n, c). n \<notin> set (take k (columns df))) (zip (columns df) r))) (rows df)
      = map (drop k) (rows df)"
    using assms by (intro map_cong refl zip_filter_not_take) auto
  then show ?thesis by (simp add: drop_columns_def none filter_not_take [OF assms(1)])
qed


lemma corpo_osciloscopio_lido:
  assumes "read_csv fs arquivo (CHR '';'') (CHR '','') = Inr df"
  shows "corpo_osciloscopio fs arquivo =
    (if length (columns df) = 5
     then Inr \<lparr>columns = [''tempo'', ''tensao''], rows = map (drop 3) (rows df)\<rparr>
     else Inl (ValueError (length (columns df) - 3) 2))"
proof -
  note d = read_csv_Inr(1) [OF assms] and w = read_csv_Inr(3) [OF assms]
  from getitem_distinct_columns [OF d, of "take 2 (columns df)"]
  obtain infos where g: "getitem (take 2 (columns df)) df = Inr infos"
    and ci: "columns infos = take 2 (columns df)"
    by (auto dest: in_set_takeD)
  note dc = drop_columns_take [OF d w, of 3]
  show ?thesis
    by (auto simp: corpo_osciloscopio_def assms g dc set_columns_def dropna_def ci)
qed

lemma corpo_osciloscopio_sem_infos_lido:
  assumes "read_csv fs arquivo (CHR '';'') (CHR '','') = Inr df"
  shows "corpo_osciloscopio_sem_infos fs arquivo =
    (if length (columns df) = 5
     then Inr \<lparr>columns = [''tempo'', ''tensao''], rows = map (drop 3) (rows df)\<rparr>
     else Inl (ValueError (length (columns df) - 3) 2))"
proof -
  note d = read_csv_Inr(1) [OF assms] and w = read_csv_Inr(3) [OF assms]
  note dc = drop_columns_take [OF d w, of 3]
  show ?thesis
    by (auto simp: corpo_osciloscopio_sem_infos_def assms dc set_columns_def)
qed

lemma corpo_simulador_lido:
  assumes "read_csv fs arquivo (CHR 0x09) (CHR '','') = Inr df"
  shows "corpo_simulador fs arquivo =
    (if length (columns df) = 2
     then Inr \<lparr>columns = [''tempo'', ''tensao''], rows = rows df\<rparr>
     else Inl (ValueError (length (columns df)) 2))"
  by (auto simp: corpo_simulador_def assms set_columns_def)

subsection \<open>The driver stops at the first exception\<close>

lemma plot_vazio: "df_plot ''tempo'' ''tensao'' DataFrame_vazio = Inl (KeyError ''tempo'')"
  by (simp add: df_plot_def DataFrame_vazio_def)

lemma snd_plotar_importado:
  "snd (plotar_importado imp ax r s) =
     (case df_plot ''tempo'' ''tensao'' (snd imp) of Inl e \<Rightarrow> Some e | Inr p \<Rightarrow> None)"
  by (cases imp) (simp add: plotar_importado_def Let_def split: sum.splits prod.splits)

lemma snd_plotar_analitico: "snd (plotar_analitico f ax s) = None"
  by (simp add: plotar_analitico_def)

lemma snd_executar_Cons:
  "snd (executar (p # ps) s) =
     (case snd (p s) of Some e \<Rightarrow> Some e | None \<Rightarrow> snd (executar ps (fst (p s))))"
  by (cases "p s") (auto split: option.splits)

lemma snd_executar_Nil: "snd (executar [] s) = None"
  by simp

lemma snd_main:
  "snd (main fs) =
     (case df_plot ''tempo'' ''tensao'' (snd (importar_csv_simulador fs arquivo_V1)) of
        Inl e \<Rightarrow> Some e | Inr p \<Rightarrow>
     (case df_plot ''tempo'' ''tensao'' (snd (importar_csv_osciloscopio fs arquivo_CH2)) of
        Inl e \<Rightarrow> Some e | Inr p \<Rightarrow>
     (case df_plot ''tempo'' ''tensao'' (snd (importar_csv_simulador fs arquivo_V2)) of
        Inl e \<Rightarrow> Some e | Inr p \<Rightarrow>
     (case df_plot ''tempo'' ''tensao'' (snd (importar_csv_osciloscopio fs arquivo_CH1)) of
        Inl e \<Rightarrow> Some e | Inr p \<Rightarrow> None))))"
  unfolding main_def
  by (simp del: executar.simps
      add: snd_executar_Cons snd_executar_Nil snd_plotar_importado snd_plotar_analitico
      split: sum.splits option.splits)

subsection \<open>Rows follow the lines of the file\<close>



subsection \<open>Exponential decay\<close>


subsection \<open>Decimal numbers written with a comma\<close>















subsection \<open>Evaluations used below\<close>

lemma dec_nat_digitos: "dec_nat 0 = ''0''" "dec_nat (Suc 0) = ''1''" "dec_nat 2 = ''2''"
  by code_simp+

lemma lido_4_colunas:
  "read_csv (um_arquivo ''o.csv'' texto_4_colunas) ''o.csv'' (CHR '';'') (CHR '','') =
   Inr \<lparr>columns = [''a'', ''b'', ''t'', ''v''],
        rows = [[CFloat 1, CStr ''x,0'', CFloat 0, CFloat (1 / 2)]]\<rparr>"
  by code_simp

lemma lido_5_colunas:
  "read_csv (um_arquivo ''o.csv'' texto_5_colunas) ''o.csv'' (CHR '';'') (CHR '','') =
   Inr \<lparr>columns = [''a'', ''b'', ''c'', ''t'', ''v''],
        rows = [[CFloat 1, CStr ''x,0'', CInt 7, CFloat 0, CFloat (1 / 2)]]\<rparr>"
  by code_simp

lemma lido_3_colunas:
  "read_csv (um_arquivo ''o.csv'' texto_3_colunas) ''o.csv'' (CHR '';'') (CHR '','') =
   Inr \<lparr>columns = [''a'', ''b'', ''c''], rows = [[CInt 1, CInt 2, CInt 3]]\<rparr>"
  by code_simp

lemma lido_simulador:
  "read_csv (um_arquivo ''s.txt'' texto_simulador) ''s.txt'' (CHR 0x09) (CHR '','') =
   Inr \<lparr>columns = [''t'', ''v''],
        rows = [[CFloat 0, CFloat (1 / 2)], [CFloat (1 / 100), CFloat (123 / 100)]]\<rparr>"
  by code_simp

lemma importado_4_colunas:
  "importar_csv_osciloscopio (um_arquivo ''o.csv'' texto_4_colunas) ''o.csv'' =
     ([''Erro ao importar o arquivo: Length mismatch: Expected axis has 1 elements, new values have 2 elements''],
      DataFrame_vazio)"
  by code_simp

lemma importado_5_colunas:
  "importar_csv_osciloscopio (um_arquivo ''o.csv'' texto_5_colunas) ''o.csv'' =
     ([], \<lparr>columns = [''tempo'', ''tensao''], rows = [[CFloat 0, CFloat (1 / 2)]]\<rparr>)"
  by code_simp

lemma importado_3_colunas:
  "importar_csv_osciloscopio (um_arquivo ''o.csv'' texto_3_colunas) ''o.csv'' =
     ([''Erro ao importar o arquivo: Length mismatch: Expected axis has 0 elements, new values have 2 elements''],
      DataFrame_vazio)"
  by code_simp

lemma importado_simulador:
  "importar_csv_simulador (um_arquivo ''s.txt'' texto_simulador) ''s.txt'' =
     ([], \<lparr>columns = [''tempo'', ''tensao''],
           rows = [[CFloat 0, CFloat (1 / 2)], [CFloat (1 / 100), CFloat (123 / 100)]]\<rparr>)"
  by code_simp

lemma sem_arquivos_V1: "snd (importar_csv_simulador sem_arquivos arquivo_V1) = DataFrame_vazio"
  by code_simp

lemma so_V1_plot:
  "df_plot ''tempo'' ''tensao'' (snd (importar_csv_simulador (um_arquivo arquivo_V1 texto_simulador) arquivo_V1)) =
     Inr ([CFloat 0, CFloat (1 / 100)], [CFloat (1 / 2), CFloat (123 / 100)])"
  by code_simp

lemma so_V1_CH2:
  "snd (importar_csv_osciloscopio (um_arquivo arquivo_V1 texto_simulador) arquivo_CH2) = DataFrame_vazio"
  by code_simp






section \<open>The claims\<close>

text \<open>
  C7. The side table \<open>infos\<close> built inside the oscilloscope importer never affects
  what the importer does: for every file system and every path, the importer prints and
  returns exactly what the importer with the \<open>infos\<close> statements removed prints and
  returns. (The labels of a table read from a file are distinct, so \<open>infos\<close> has as
  many columns as were selected, and its relabelling can only fail where the relabelling
  of \<open>df\<close> one line earlier has failed already.)
\<close>

theorem infos_nao_afeta_resultado:
  "importar_csv_osciloscopio fs arquivo = importar_csv_osciloscopio_sem_infos fs arquivo"
proof (cases "read_csv fs arquivo (CHR '';'') (CHR '','')")
  case (Inl e)
  then show ?thesis
    by (simp add: importar_csv_osciloscopio_def importar_csv_osciloscopio_sem_infos_def
        corpo_osciloscopio_def corpo_osciloscopio_sem_infos_def)
next
  case (Inr df)
  then show ?thesis
    by (simp only: importar_csv_osciloscopio_def importar_csv_osciloscopio_sem_infos_def
        corpo_osciloscopio_lido corpo_osciloscopio_sem_infos_lido)
qed

text \<open>
  C10. For a file the reader accepts, the oscilloscope importer returns the two-column
  table (labels \<open>tempo\<close> and \<open>tensao\<close>, each row the input row without its first three
  cells) exactly when the file has five columns. With any other number of columns,
  dropping the first three succeeds, the relabelling of line 20 raises the length-mismatch
  \<open>ValueError\<close>, the handler prints it, and the importer returns the empty table.
\<close>

theorem osciloscopio_exige_cinco_colunas:
  assumes "read_csv fs arquivo (CHR '';'') (CHR '','') = Inr df"
  shows "(length (columns df) = 5 \<longrightarrow>
           importar_csv_osciloscopio fs arquivo =
             ([], \<lparr>columns = [''tempo'', ''tensao''], rows = map (drop 3) (rows df)\<rparr>)) \<and>
         (length (columns df) \<noteq> 5 \<longrightarrow>
           (\<exists>df1. drop_columns (take 3 (columns df)) df = Inr df1 \<and>
                  set_columns [''tempo'', ''tensao''] df1 = Inl (ValueError (length (columns df) - 3) 2)) \<and>
           importar_csv_osciloscopio fs arquivo =
             ([''Erro ao importar o arquivo: '' @ str_exn (ValueError (length (columns df) - 3) 2)],
              DataFrame_vazio))"
proof -
  note d = read_csv_Inr(1) [OF assms] and w = read_csv_Inr(3) [OF assms]
  note dc = drop_columns_take [OF d w, of 3]
  have corpo: "corpo_osciloscopio fs arquivo =
      (if length (columns df) = 5
       then Inr \<lparr>columns = [''tempo'', ''tensao''], rows = map (drop 3) (rows df)\<rparr>
       else Inl (ValueError (length (columns df) - 3) 2))"
    using assms by (rule corpo_osciloscopio_lido)
  have renomear: "length (columns df) \<noteq> 5 \<Longrightarrow>
      set_columns [''tempo'', ''tensao''] \<lparr>columns = drop 3 (columns df), rows = map (drop 3) (rows df)\<rparr>
        = Inl (ValueError (length (columns df) - 3) 2)"
    by (auto simp: set_columns_def)
  show ?thesis
    using renomear by (simp add: importar_csv_osciloscopio_def corpo tratar_def dc)
qed

theorem osciloscopio_exige_cinco_colunas_witness:
  "importar_csv_osciloscopio (um_arquivo ''o.csv'' texto_5_colunas) ''o.csv'' =
     ([], \<lparr>columns = [''tempo'', ''tensao''], rows = [[CFloat 0, CFloat (1 / 2)]]\<rparr>) \<and>
   importar_csv_osciloscopio (um_arquivo ''o.csv'' texto_4_colunas) ''o.csv'' =
     ([''Erro ao importar o arquivo: Length mismatch: Expected axis has 1 elements, new values have 2 elements''],
      DataFrame_vazio)"
  using osciloscopio_exige_cinco_colunas [OF lido_5_colunas]
    osciloscopio_exige_cinco_colunas [OF lido_4_colunas]
  by (simp add: dec_nat_digitos)

text \<open>
  C1, as stated, fails: on the four-column file of the scenario the importer does not
  return one row.
\<close>

theorem cenario_4_colunas_counterexample:
  "\<not> length (rows (snd (importar_csv_osciloscopio (um_arquivo ''o.csv'' texto_4_colunas) ''o.csv''))) = 1"
  by (simp add: importado_4_colunas DataFrame_vazio_def)

text \<open>
  C1, amended. On the four-column file \<^verbatim>\<open>a;b;t;v\<close> / \<^verbatim>\<open>1,0;x,0;0,0;0,5\<close> one column
  is left after the first three are dropped, the relabelling with two names raises, and
  the importer prints one diagnostic and returns the table with no row and no column.
  The same data with five columns (\<^verbatim>\<open>a;b;c;t;v\<close> / \<^verbatim>\<open>1,0;x,0;7;0,0;0,5\<close>) gives the
  one row with \<open>tempo\<close> 0.0 and \<open>tensao\<close> 0.5.
\<close>

theorem cenario_4_colunas:
  "importar_csv_osciloscopio (um_arquivo ''o.csv'' texto_4_colunas) ''o.csv'' =
     ([''Erro ao importar o arquivo: Length mismatch: Expected axis has 1 elements, new values have 2 elements''],
      \<lparr>columns = [], rows = []\<rparr>) \<and>
   importar_csv_osciloscopio (um_arquivo ''o.csv'' texto_5_colunas) ''o.csv'' =
     ([], \<lparr>columns = [''tempo'', ''tensao''], rows = [[CFloat 0, CFloat (1 / 2)]]\<rparr>)"
  by (simp add: importado_4_colunas importado_5_colunas DataFrame_vazio_def)

text \<open>
  C2, as stated, fails: a well-formed file of three columns (one row) gives a table
  that has neither two columns nor one row.
\<close>

theorem osciloscopio_3_colunas_counterexample:
  "read_csv (um_arquivo ''o.csv'' texto_3_colunas) ''o.csv'' (CHR '';'') (CHR '','') =
     Inr \<lparr>columns = [''a'', ''b'', ''c''], rows = [[CInt 1, CInt 2, CInt 3]]\<rparr> \<and>
   length (columns (snd (importar_csv_osciloscopio (um_arquivo ''o.csv'' texto_3_colunas) ''o.csv''))) \<noteq> 2 \<and>
   length (rows (snd (importar_csv_osciloscopio (um_arquivo ''o.csv'' texto_3_colunas) ''o.csv''))) \<noteq> 1"
  by (simp add: lido_3_colunas importado_3_colunas DataFrame_vazio_def)

text \<open>
  C2, amended. For every file the reader accepts that has exactly five columns, the
  oscilloscope importer prints nothing and returns a table with exactly two columns,
  labelled \<open>tempo\<close> and \<open>tensao\<close> in that order, with as many rows as the input.
\<close>

theorem osciloscopio_cinco_colunas:
  assumes "read_csv fs arquivo (CHR '';'') (CHR '','') = Inr df"
    and "length (columns df) = 5"
  shows "fst (importar_csv_osciloscopio fs arquivo) = [] \<and>
         columns (snd (importar_csv_osciloscopio fs arquivo)) = [''tempo'', ''tensao''] \<and>
         length (rows (snd (importar_csv_osciloscopio fs arquivo))) = length (rows df)"
  by (simp add: importar_csv_osciloscopio_def corpo_osciloscopio_lido [OF assms(1)] assms(2) tratar_def)

theorem osciloscopio_cinco_colunas_witness:
  "fst (importar_csv_osciloscopio (um_arquivo ''o.csv'' texto_5_colunas) ''o.csv'') = [] \<and>
   columns (snd (importar_csv_osciloscopio (um_arquivo ''o.csv'' texto_5_colunas) ''o.csv'')) =
     [''tempo'', ''tensao''] \<and>
   length (rows (snd (importar_csv_osciloscopio (um_arquivo ''o.csv'' texto_5_colunas) ''o.csv''))) = 1"
  using osciloscopio_cinco_colunas [OF lido_5_colunas] by simp

text \<open>
  C3, as stated, fails on the labels: the columns of the table returned for a
  well-formed two-column simulator file are not called \<open>time\<close> and \<open>voltage\<close>.
\<close>

theorem simulador_rotulos_counterexample:
  "read_csv (um_arquivo ''s.txt'' texto_simulador) ''s.txt'' (CHR 0x09) (CHR '','') =
     Inr \<lparr>columns = [''t'', ''v''],
          rows = [[CFloat 0, CFloat (1 / 2)], [CFloat (1 / 100), CFloat (123 / 100)]]\<rparr> \<and>
   columns (snd (importar_csv_simulador (um_arquivo ''s.txt'' texto_simulador) ''s.txt'')) \<noteq>
     [''time'', ''voltage'']"
  by (simp add: lido_simulador importado_simulador)

text \<open>
  C3, amended. For every file the reader accepts that has exactly two columns, the
  simulator importer prints nothing and returns the table read, its two columns
  relabelled \<open>tempo\<close> and \<open>tensao\<close> (line 42), its rows and cells unchanged.
\<close>

theorem simulador_duas_colunas:
  assumes "read_csv fs arquivo (CHR 0x09) (CHR '','') = Inr df"
    and "length (columns df) = 2"
  shows "importar_csv_simulador fs arquivo =
           ([], \<lparr>columns = [''tempo'', ''tensao''], rows = rows df\<rparr>)"
  by (simp add: importar_csv_simulador_def corpo_simulador_lido [OF assms(1)] assms(2) tratar_def)

theorem simulador_duas_colunas_witness:
  "importar_csv_simulador (um_arquivo ''s.txt'' texto_simulador) ''s.txt'' =
     ([], \<lparr>columns = [''tempo'', ''tensao''],
           rows = [[CFloat 0, CFloat (1 / 2)], [CFloat (1 / 100), CFloat (123 / 100)]]\<rparr>)"
  using simulador_duas_colunas [OF lido_simulador] by simp



text \<open>
  C5. When the path cannot be opened (no such file, or any other failure to open or
  decode it), each importer returns the table with no row and no column and calls
  \<^verbatim>\<open>print\<close> exactly once, with the diagnostic. No exception leaves an importer:
  whatever the body of the \<^verbatim>\<open>try\<close> raises, on any input, ends in that same return.
\<close>

theorem importadores_arquivo_ilegivel:
  assumes "fs arquivo = Inl e"
  shows "importar_csv_osciloscopio fs arquivo =
           ([''Erro ao importar o arquivo: '' @ str_exn e], DataFrame_vazio) \<and>
         importar_csv_simulador fs arquivo =
           ([''Erro ao importar o arquivo: '' @ str_exn e], DataFrame_vazio) \<and>
         columns DataFrame_vazio = [] \<and> rows DataFrame_vazio = [] \<and>
         (\<forall>fs' arquivo' e'. corpo_osciloscopio fs' arquivo' = Inl e' \<longrightarrow>
            importar_csv_osciloscopio fs' arquivo' =
              ([''Erro ao importar o arquivo: '' @ str_exn e'], DataFrame_vazio)) \<and>
         (\<forall>fs' arquivo' e'. corpo_simulador fs' arquivo' = Inl e' \<longrightarrow>
            importar_csv_simulador fs' arquivo' =
              ([''Erro ao importar o arquivo: '' @ str_exn e'], DataFrame_vazio))"
  using assms
  by (simp add: importar_csv_osciloscopio_def importar_csv_simulador_def corpo_osciloscopio_def
      corpo_simulador_def read_csv_def tratar_def DataFrame_vazio_def)

theorem importadores_arquivo_ilegivel_witness:
  "importar_csv_osciloscopio sem_arquivos ''nada.csv'' =
     ([''Erro ao importar o arquivo: [Errno 2] No such file or directory: '' @ [CHR 0x27] @ ''nada.csv'' @ [CHR 0x27]],
      DataFrame_vazio) \<and>
   importar_csv_simulador sem_arquivos ''nada.csv'' =
     ([''Erro ao importar o arquivo: [Errno 2] No such file or directory: '' @ [CHR 0x27] @ ''nada.csv'' @ [CHR 0x27]],
      DataFrame_vazio)"
  using importadores_arquivo_ilegivel [of sem_arquivos "''nada.csv''" "nao_existe ''nada.csv''"]
  by (simp add: sem_arquivos_def nao_existe_def)




text \<open>
  C9. The plot call on the empty table raises \<open>KeyError\<close> for the missing column
  \<open>tempo\<close>. Nothing in the driver catches it: when any of the four imports falls back
  to the empty table, \<^verbatim>\<open>main\<close> ends with an exception and the process with exit status
  1; and when the steps before that import went through, the exception is that
  \<open>KeyError\<close> of the plot call that follows the import.
\<close>

theorem tabela_vazia_derruba_main:
  "df_plot ''tempo'' ''tensao'' DataFrame_vazio = Inl (KeyError ''tempo'') \<and>
   (snd (importar_csv_simulador fs arquivo_V1) = DataFrame_vazio \<or>
    snd (importar_csv_osciloscopio fs arquivo_CH2) = DataFrame_vazio \<or>
    snd (importar_csv_simulador fs arquivo_V2) = DataFrame_vazio \<or>
    snd (importar_csv_osciloscopio fs arquivo_CH1) = DataFrame_vazio
    \<longrightarrow> snd (main fs) \<noteq> None \<and> processo fs = 1) \<and>
   (snd (importar_csv_simulador fs arquivo_V1) = DataFrame_vazio \<or>
    (\<exists>p. df_plot ''tempo'' ''tensao'' (snd (importar_csv_simulador fs arquivo_V1)) = Inr p) \<and>
    (snd (importar_csv_osciloscopio fs arquivo_CH2) = DataFrame_vazio \<or>
     (\<exists>p. df_plot ''tempo'' ''tensao'' (snd (importar_csv_osciloscopio fs arquivo_CH2)) = Inr p) \<and>
     (snd (importar_csv_simulador fs arquivo_V2) = DataFrame_vazio \<or>
      (\<exists>p. df_plot ''tempo'' ''tensao'' (snd (importar_csv_simulador fs arquivo_V2)) = Inr p) \<and>
      snd (importar_csv_osciloscopio fs arquivo_CH1) = DataFrame_vazio))
    \<longrightarrow> snd (main fs) = Some (KeyError ''tempo'') \<and> processo fs = 1)"
proof (intro conjI impI)
  show "df_plot ''tempo'' ''tensao'' DataFrame_vazio = Inl (KeyError ''tempo'')"
    by (rule plot_vazio)
next
  assume "snd (importar_csv_simulador fs arquivo_V1) = DataFrame_vazio \<or>
    snd (importar_csv_osciloscopio fs arquivo_CH2) = DataFrame_vazio \<or>
    snd (importar_csv_simulador fs arquivo_V2) = DataFrame_vazio \<or>
    snd (importar_csv_osciloscopio fs arquivo_CH1) = DataFrame_vazio"
  then have "snd (main fs) \<noteq> None"
    unfolding snd_main by (auto simp: plot_vazio split: sum.splits)
  then show "snd (main fs) \<noteq> None" and "processo fs = 1"
    by (auto simp: processo_def)
next
  assume "snd (importar_csv_simulador fs arquivo_V1) = DataFrame_vazio \<or>
    (\<exists>p. df_plot ''tempo'' ''tensao'' (snd (importar_csv_simulador fs arquivo_V1)) = Inr p) \<and>
    (snd (importar_csv_osciloscopio fs arquivo_CH2) = DataFrame_vazio \<or>
     (\<exists>p. df_plot ''tempo'' ''tensao'' (snd (importar_csv_osciloscopio fs arquivo_CH2)) = Inr p) \<and>
     (snd (importar_csv_simulador fs arquivo_V2) = DataFrame_vazio \<or>
      (\<exists>p. df_plot ''tempo'' ''tensao'' (snd (importar_csv_simulador fs arquivo_V2)) = Inr p) \<and>
      snd (importar_csv_osciloscopio fs arquivo_CH1) = DataFrame_vazio))"
  then have "snd (main fs) = Some (KeyError ''tempo'')"
    unfolding snd_main by (auto simp: plot_vazio split: sum.splits)
  then show "snd (main fs) = Some (KeyError ''tempo'')" and "processo fs = 1"
    by (auto simp: processo_def)
qed

theorem tabela_vazia_derruba_main_witness:
  "snd (main sem_arquivos) = Some (KeyError ''tempo'') \<and> processo sem_arquivos = 1 \<and>
   snd (main (um_arquivo arquivo_V1 texto_simulador)) = Some (KeyError ''tempo'') \<and>
   processo (um_arquivo arquivo_V1 texto_simulador) = 1"
  using tabela_vazia_derruba_main [of sem_arquivos]
    tabela_vazia_derruba_main [of "um_arquivo arquivo_V1 texto_simulador"]
  by (simp add: sem_arquivos_V1 so_V1_plot so_V1_CH2)

end
